theory Spec2Isabelle
  imports Main "HOL-Library.Sublist" "HOL-Library.AList"
begin

section \<open>The static configuration module \<open>src/app.ts\<close>\<close>

text \<open>
  The module consists of four \<open>export const\<close> declarations whose right-hand sides are
  literals only: three object literals with string and boolean fields, and one bare
  boolean literal. There is no function, no call, no computed expression and no
  assignment anywhere in the module.
\<close>

subsection \<open>Literal values\<close>

text \<open>
  The values a literal of the language can denote. An object literal keeps its fields as
  an association list in the order in which the source writes them. \<open>JNum\<close> stands for
  a numeric literal; the module writes none, and the constructor is there so that
  "is a string or a boolean" and "is not a number" are properties of a value and not of
  the type. \<open>JNull\<close> is the literal \<open>null\<close>, and \<open>JUndefined\<close> is what reading an absent
  field yields; the module writes neither.
\<close>

datatype js_value =
    JStr string
  | JBool bool
  | JNum int
  | JObj "(string \<times> js_value) list"
  | JNull
  | JUndefined

text \<open>The \<open>typeof\<close> operator on these values.\<close>

fun typeof :: "js_value \<Rightarrow> string" where
  "typeof (JStr s) = ''string''"
| "typeof (JBool b) = ''boolean''"
| "typeof (JNum n) = ''number''"
| "typeof (JObj fs) = ''object''"
| "typeof JNull = ''object''"
| "typeof JUndefined = ''undefined''"

text \<open>
  The field written under key \<open>k\<close> in an object literal. \<open>None\<close> means that the literal
  has no such field; a string or boolean literal has no fields written in it.
\<close>

fun field_of :: "js_value \<Rightarrow> string \<Rightarrow> js_value option" where
  "field_of (JObj fs) k = map_of fs k"
| "field_of (JStr s) k = None"
| "field_of (JBool b) k = None"
| "field_of (JNum n) k = None"
| "field_of JNull k = None"
| "field_of JUndefined k = None"

text \<open>The keys of an object literal, in source order.\<close>

fun field_names :: "js_value \<Rightarrow> string list" where
  "field_names (JObj fs) = map fst fs"
| "field_names (JStr s) = []"
| "field_names (JBool b) = []"
| "field_names (JNum n) = []"
| "field_names JNull = []"
| "field_names JUndefined = []"

fun is_string_or_boolean :: "js_value \<Rightarrow> bool" where
  "is_string_or_boolean (JStr s) = True"
| "is_string_or_boolean (JBool b) = True"
| "is_string_or_boolean (JNum n) = False"
| "is_string_or_boolean (JObj fs) = False"
| "is_string_or_boolean JNull = False"
| "is_string_or_boolean JUndefined = False"

text \<open>
  A flat record of scalars: an object whose keys are pairwise different and whose
  fields are all strings or booleans. A bare scalar is not a record.
\<close>

fun is_flat_record :: "js_value \<Rightarrow> bool" where
  "is_flat_record (JObj fs) = (distinct (map fst fs) \<and> list_all is_string_or_boolean (map snd fs))"
| "is_flat_record (JStr s) = False"
| "is_flat_record (JBool b) = False"
| "is_flat_record (JNum n) = False"
| "is_flat_record JNull = False"
| "is_flat_record JUndefined = False"

subsection \<open>The four exported constants\<close>

text \<open>\<open>export const SEO_CONFIG = { description, fullName, name, slogan }\<close> (lines 1 to 7).\<close>

definition SEO_CONFIG :: js_value where
  "SEO_CONFIG = JObj
     [(''description'',
         JStr ''MegaShop is a robust ecommerce platform built with next.js and modern technologies. It's designed for businesses who want a fast, modern, and scalable foundation for their online store.''),
      (''fullName'', JStr ''MegaShop - Your Ultimate Shopping Destination''),
      (''name'', JStr ''MegaShop''),
      (''slogan'', JStr ''Where shopping meets convenience.'')]"

text \<open>\<open>export const SYSTEM_CONFIG = { ... }\<close> (lines 9 to 15).\<close>

definition SYSTEM_CONFIG :: js_value where
  "SYSTEM_CONFIG = JObj
     [(''redirectAfterSignIn'', JStr ''/dashboard/uploads''),
      (''redirectAfterSignUp'', JStr ''/dashboard/uploads''),
      (''repoName'', JStr ''megashop''),
      (''repoOwner'', JStr ''durgeshkryadav''),
      (''repoStars'', JBool True)]"

text \<open>\<open>export const ADMIN_CONFIG = { displayEmails: false }\<close> (lines 17 to 19).\<close>

definition ADMIN_CONFIG :: js_value where
  "ADMIN_CONFIG = JObj [(''displayEmails'', JBool False)]"

text \<open>\<open>export const DB_DEV_LOGGER = false\<close> (line 21).\<close>

definition DB_DEV_LOGGER :: js_value where
  "DB_DEV_LOGGER = JBool False"

subsection \<open>The module and its reads\<close>

text \<open>
  An initialised module is its table of exports: each exported name with the value
  bound to it, in declaration order.
\<close>

type_synonym module = "(string \<times> js_value) list"

definition app_exports :: module where
  "app_exports =
     [(''SEO_CONFIG'', SEO_CONFIG),
      (''SYSTEM_CONFIG'', SYSTEM_CONFIG),
      (''ADMIN_CONFIG'', ADMIN_CONFIG),
      (''DB_DEV_LOGGER'', DB_DEV_LOGGER)]"

definition export_names :: "module \<Rightarrow> string list" where
  "export_names m = map fst m"

text \<open>
  Reading an export by name, and reading a field of an export. \<open>None\<close> is the read that
  delivers nothing: the name is not exported, or the export has no such field.
\<close>

definition read_export :: "module \<Rightarrow> string \<Rightarrow> js_value option" where
  "read_export m n = map_of m n"

definition read_field :: "module \<Rightarrow> string \<Rightarrow> string \<Rightarrow> js_value option" where
  "read_field m n k = (case read_export m n of None \<Rightarrow> None | Some v \<Rightarrow> field_of v k)"

text \<open>The string held by a field, when the field exists and holds a string.\<close>

definition read_string :: "module \<Rightarrow> string \<Rightarrow> string \<Rightarrow> string option" where
  "read_string m n k = (case read_field m n k of Some (JStr s) \<Rightarrow> Some s | _ \<Rightarrow> None)"

subsection \<open>Evaluating the module\<close>

text \<open>
  The module as source text: a list of \<open>export const\<close> declarations, each with its
  initialiser expression. Besides the literals that \<open>app.ts\<close> uses, an initialiser of the
  language may call a function (\<open>JSON.parse(...)\<close>, a file read, a schema's \<open>parse\<close>):
  that is where parsing, I/O and validation would happen, and where an initialiser could
  raise.
\<close>

datatype expr =
    StrLit string
  | BoolLit bool
  | NumLit int
  | NullLit
  | ObjLit "(string \<times> expr) list"
  | Call string "expr list"

datatype decl = ExportConst string expr

datatype error = ReferenceError | TypeError | SyntaxError | Thrown string

text \<open>
  An effect is a call that leaves the module. What the called function does is not the
  module's to decide: it is a parameter of the evaluation, and may return a value or raise.
\<close>

datatype effect = Called string "js_value list"

type_synonym external = "string \<Rightarrow> js_value list \<Rightarrow> error + js_value"

text \<open>
  Evaluation of an initialiser yields the effects performed, in order, and either the
  error raised or the value. Fields and arguments are evaluated left to right and stop at
  the first error. A key written twice in an object literal keeps its first position and
  its last value.
\<close>

fun eval :: "external \<Rightarrow> expr \<Rightarrow> effect list \<times> (error + js_value)"
  and eval_fields :: "external \<Rightarrow> (string \<times> expr) list \<Rightarrow> (string \<times> js_value) list
        \<Rightarrow> effect list \<times> (error + (string \<times> js_value) list)"
  and eval_args :: "external \<Rightarrow> expr list \<Rightarrow> effect list \<times> (error + js_value list)"
where
  "eval ext (StrLit s) = ([], Inr (JStr s))"
| "eval ext (BoolLit b) = ([], Inr (JBool b))"
| "eval ext (NumLit n) = ([], Inr (JNum n))"
| "eval ext NullLit = ([], Inr JNull)"
| "eval ext (ObjLit fs) =
     (case eval_fields ext fs [] of
        (es, Inl err) \<Rightarrow> (es, Inl err)
      | (es, Inr kvs) \<Rightarrow> (es, Inr (JObj kvs)))"
| "eval ext (Call f as) =
     (case eval_args ext as of
        (es, Inl err) \<Rightarrow> (es, Inl err)
      | (es, Inr vs) \<Rightarrow> (es @ [Called f vs], ext f vs))"
| "eval_fields ext [] acc = ([], Inr acc)"
| "eval_fields ext (f # fs) acc =
     (case eval ext (snd f) of
        (es, Inl err) \<Rightarrow> (es, Inl err)
      | (es, Inr v) \<Rightarrow>
          (case eval_fields ext fs (AList.update (fst f) v acc) of
             (es', r) \<Rightarrow> (es @ es', r)))"
| "eval_args ext [] = ([], Inr [])"
| "eval_args ext (a # as) =
     (case eval ext a of
        (es, Inl err) \<Rightarrow> (es, Inl err)
      | (es, Inr v) \<Rightarrow>
          (case eval_args ext as of
             (es', Inl err) \<Rightarrow> (es @ es', Inl err)
           | (es', Inr vs) \<Rightarrow> (es @ es', Inr (v # vs))))"

text \<open>
  Evaluation of a module runs its declarations in order, starting with no binding
  initialised. A declaration whose initialiser raises ends the evaluation with that error;
  a name declared twice is refused.
\<close>

fun eval_module :: "external \<Rightarrow> decl list \<Rightarrow> module \<Rightarrow> effect list \<times> (error + module)" where
  "eval_module ext [] m = ([], Inr m)"
| "eval_module ext (ExportConst n e # ds) m =
     (if n \<in> set (map fst m) then ([], Inl SyntaxError)
      else (case eval ext e of
              (es, Inl err) \<Rightarrow> (es, Inl err)
            | (es, Inr v) \<Rightarrow>
                (case eval_module ext ds (m @ [(n, v)]) of
                   (es', r) \<Rightarrow> (es @ es', r))))"

text \<open>The 21 lines of \<open>app.ts\<close>, declaration by declaration.\<close>

definition app_source :: "decl list" where
  "app_source =
     [ExportConst ''SEO_CONFIG'' (ObjLit
        [(''description'',
            StrLit ''MegaShop is a robust ecommerce platform built with next.js and modern technologies. It's designed for businesses who want a fast, modern, and scalable foundation for their online store.''),
         (''fullName'', StrLit ''MegaShop - Your Ultimate Shopping Destination''),
         (''name'', StrLit ''MegaShop''),
         (''slogan'', StrLit ''Where shopping meets convenience.'')]),
      ExportConst ''SYSTEM_CONFIG'' (ObjLit
        [(''redirectAfterSignIn'', StrLit ''/dashboard/uploads''),
         (''redirectAfterSignUp'', StrLit ''/dashboard/uploads''),
         (''repoName'', StrLit ''megashop''),
         (''repoOwner'', StrLit ''durgeshkryadav''),
         (''repoStars'', BoolLit True)]),
      ExportConst ''ADMIN_CONFIG'' (ObjLit [(''displayEmails'', BoolLit False)]),
      ExportConst ''DB_DEV_LOGGER'' (BoolLit False)]"

subsection \<open>What a consumer can do with the initialised module\<close>

text \<open>
  Reading a property of a value. An object yields the field written under the key, or
  \<open>undefined\<close> when it has none. A string, boolean or number raises nothing either.
  \<open>null\<close> and \<open>undefined\<close> have no properties: reading one raises a \<open>TypeError\<close>.
  Only a value's own named fields are modelled, not the members every value inherits
  nor a string's length and indices.
\<close>

fun get_prop :: "js_value \<Rightarrow> string \<Rightarrow> error + js_value" where
  "get_prop (JObj fs) k = Inr (case map_of fs k of None \<Rightarrow> JUndefined | Some x \<Rightarrow> x)"
| "get_prop (JStr s) k = Inr JUndefined"
| "get_prop (JBool b) k = Inr JUndefined"
| "get_prop (JNum n) k = Inr JUndefined"
| "get_prop JNull k = Inl TypeError"
| "get_prop JUndefined k = Inl TypeError"

text \<open>
  Assigning to a property. The objects of \<open>app.ts\<close> are plain object literals: the source
  neither freezes them nor declares them \<open>as const\<close>, so an assignment replaces the
  field, or adds it when the key is new. Module code is strict, where assigning to a
  property of a string, boolean or number raises a \<open>TypeError\<close>, as it does on \<open>null\<close>
  and \<open>undefined\<close>.
\<close>

fun set_prop :: "js_value \<Rightarrow> string \<Rightarrow> js_value \<Rightarrow> error + js_value" where
  "set_prop (JObj fs) k x = Inr (JObj (AList.update k x fs))"
| "set_prop (JStr s) k x = Inl TypeError"
| "set_prop (JBool b) k x = Inl TypeError"
| "set_prop (JNum n) k x = Inl TypeError"
| "set_prop JNull k x = Inl TypeError"
| "set_prop JUndefined k x = Inl TypeError"

text \<open>
  The operations of a consumer on an export \<open>n\<close>: read it, read its field \<open>k\<close>, assign
  to its field \<open>k\<close>, and assign to the binding \<open>n\<close> itself.
\<close>

datatype op =
    ReadExport string
  | ReadField string string
  | WriteField string string js_value
  | Rebind string js_value

text \<open>
  One operation on the module: the module afterwards, and the value produced or the
  error raised. A name without an initialised binding raises a \<open>ReferenceError\<close>. An
  exported binding is constant: assigning to it raises a \<open>TypeError\<close> and changes
  nothing. A field assignment that succeeds stores the new object under the export and
  produces the assigned value.
\<close>

fun step :: "module \<Rightarrow> op \<Rightarrow> module \<times> (error + js_value)" where
  "step m (ReadExport n) =
     (case map_of m n of
        None \<Rightarrow> (m, Inl ReferenceError)
      | Some v \<Rightarrow> (m, Inr v))"
| "step m (ReadField n k) =
     (case map_of m n of
        None \<Rightarrow> (m, Inl ReferenceError)
      | Some v \<Rightarrow> (m, get_prop v k))"
| "step m (WriteField n k x) =
     (case map_of m n of
        None \<Rightarrow> (m, Inl ReferenceError)
      | Some v \<Rightarrow>
          (case set_prop v k x of
             Inl err \<Rightarrow> (m, Inl err)
           | Inr v' \<Rightarrow> (AList.update n v' m, Inr x)))"
| "step m (Rebind n x) =
     (case map_of m n of
        None \<Rightarrow> (m, Inl ReferenceError)
      | Some v \<Rightarrow> (m, Inl TypeError))"

text \<open>
  The module after a sequence of operations. An error ends the statement that raised
  it, not the program, so the operations after it still run.
\<close>

fun run :: "module \<Rightarrow> op list \<Rightarrow> module" where
  "run m [] = m"
| "run m (c # cs) = run (fst (step m c)) cs"



text \<open>A value whose properties can be read without an error.\<close>

fun readable :: "js_value \<Rightarrow> bool" where
  "readable JNull = False"
| "readable JUndefined = False"
| "readable (JStr s) = True"
| "readable (JBool b) = True"
| "readable (JNum n) = True"
| "readable (JObj fs) = True"

section \<open>Basic facts\<close>

lemma read_export_SEO_CONFIG:
  "read_export app_exports ''SEO_CONFIG'' = Some SEO_CONFIG"
  by (simp add: read_export_def app_exports_def)

lemma read_export_SYSTEM_CONFIG:
  "read_export app_exports ''SYSTEM_CONFIG'' = Some SYSTEM_CONFIG"
  by (simp add: read_export_def app_exports_def)

lemma read_export_ADMIN_CONFIG:
  "read_export app_exports ''ADMIN_CONFIG'' = Some ADMIN_CONFIG"
  by (simp add: read_export_def app_exports_def)

lemma read_export_DB_DEV_LOGGER:
  "read_export app_exports ''DB_DEV_LOGGER'' = Some DB_DEV_LOGGER"
  by (simp add: read_export_def app_exports_def)

lemmas read_export_simps =
  read_export_SEO_CONFIG read_export_SYSTEM_CONFIG
  read_export_ADMIN_CONFIG read_export_DB_DEV_LOGGER

lemma export_names_app:
  "export_names app_exports = [''SEO_CONFIG'', ''SYSTEM_CONFIG'', ''ADMIN_CONFIG'', ''DB_DEV_LOGGER'']"
  by (simp add: export_names_def app_exports_def)

text \<open>
  No operation of a consumer adds or removes a binding, and none can leave \<open>null\<close> or
  \<open>undefined\<close> bound to an export whose value could be read before.
\<close>

lemma map_of_bound: "map_of m n = Some v \<Longrightarrow> n \<in> set (map fst m)"
  by (induction m) (auto split: if_splits)

lemma set_prop_readable: "set_prop v k x = Inr v' \<Longrightarrow> readable v'"
  by (cases v) auto

lemma update_snd_all:
  "list_all P (map snd al) \<Longrightarrow> P v \<Longrightarrow> list_all P (map snd (AList.update k v al))"
  by (induction al) auto

lemma step_names: "map fst (fst (step m c)) = map fst m"
proof (cases c)
  case (WriteField n k x)
  then show ?thesis
    by (auto simp: AList.update_keys dest: map_of_bound split: option.splits sum.splits)
qed (auto split: option.splits)

lemma step_readable:
  "list_all readable (map snd m) \<Longrightarrow> list_all readable (map snd (fst (step m c)))"
proof (cases c)
  case (WriteField n k x)
  assume "list_all readable (map snd m)"
  with WriteField show ?thesis
    by (auto intro: update_snd_all dest: set_prop_readable split: option.splits sum.splits)
qed (auto split: option.splits)

lemma run_names: "map fst (run m cs) = map fst m"
  by (induction cs arbitrary: m) (simp_all add: step_names)

lemma run_readable: "list_all readable (map snd m) \<Longrightarrow> list_all readable (map snd (run m cs))"
  by (induction cs arbitrary: m) (simp_all add: step_readable)

text \<open>A bound export whose value is neither \<open>null\<close> nor \<open>undefined\<close> can be read, and so can each field.\<close>

lemma bound_readable:
  assumes "n \<in> set (map fst m)" and "list_all readable (map snd m)"
  obtains v where "map_of m n = Some v" and "readable v"
proof -
  from assms(1) obtain v where v: "map_of m n = Some v"
    by (cases "map_of m n") (auto simp: map_of_eq_None_iff)
  then have "(n, v) \<in> set m"
    by (rule map_of_SomeD)
  with assms(2) have "readable v"
    by (auto simp: list_all_iff)
  with v show thesis
    by (rule that)
qed

lemma get_prop_readable: "readable v \<Longrightarrow> \<exists>x. get_prop v k = Inr x"
  by (cases v) simp_all

lemma reads_do_not_raise:
  assumes "n \<in> set (map fst m)" and "list_all readable (map snd m)"
  shows "(\<exists>v. step m (ReadExport n) = (m, Inr v)) \<and> (\<exists>v. step m (ReadField n k) = (m, Inr v))"
proof -
  from assms obtain v where v: "map_of m n = Some v" "readable v"
    by (rule bound_readable)
  from v(2) obtain x where "get_prop v k = Inr x"
    using get_prop_readable by blast
  with v(1) show ?thesis
    by simp
qed

lemma app_exports_readable: "list_all readable (map snd app_exports)"
  by (simp add: app_exports_def SEO_CONFIG_def SYSTEM_CONFIG_def ADMIN_CONFIG_def DB_DEV_LOGGER_def)







section \<open>The claims\<close>

text \<open>
  C1. The exported constant \<open>SYSTEM_CONFIG\<close> has a field \<open>redirectAfterSignIn\<close> whose
  value is exactly the string \<open>/dashboard/uploads\<close>.
\<close>

theorem C1_redirectAfterSignIn:
  "read_field app_exports ''SYSTEM_CONFIG'' ''redirectAfterSignIn'' = Some (JStr ''/dashboard/uploads'')"
  by (simp add: read_field_def read_export_simps SYSTEM_CONFIG_def)

text \<open>
  C2. The exported constant \<open>DB_DEV_LOGGER\<close>, the database-logging toggle, is exactly
  the boolean \<open>false\<close>.
\<close>

theorem C2_DB_DEV_LOGGER_false:
  "read_export app_exports ''DB_DEV_LOGGER'' = Some (JBool False)"
  by (simp add: read_export_simps DB_DEV_LOGGER_def)

text \<open>
  C3. The exported constant \<open>ADMIN_CONFIG\<close> has a field \<open>displayEmails\<close>, the admin
  email visibility toggle, whose value is exactly the boolean \<open>false\<close>.
\<close>

theorem C3_displayEmails_false:
  "read_field app_exports ''ADMIN_CONFIG'' ''displayEmails'' = Some (JBool False)"
  by (simp add: read_field_def read_export_simps ADMIN_CONFIG_def)

text \<open>
  C4. The exported constant \<open>SEO_CONFIG\<close> carries the branding strings exactly: \<open>name\<close>
  is \<open>MegaShop\<close>, \<open>slogan\<close> is \<open>Where shopping meets convenience.\<close>, \<open>fullName\<close> is
  \<open>MegaShop - Your Ultimate Shopping Destination\<close>, and \<open>description\<close> is the literal
  of the source, which begins with the sentence
  \<open>MegaShop is a robust ecommerce platform built with next.js and modern technologies.\<close>
\<close>

theorem C4_branding_strings:
  "read_field app_exports ''SEO_CONFIG'' ''name'' = Some (JStr ''MegaShop'')
   \<and> read_field app_exports ''SEO_CONFIG'' ''slogan'' = Some (JStr ''Where shopping meets convenience.'')
   \<and> read_field app_exports ''SEO_CONFIG'' ''fullName'' =
         Some (JStr ''MegaShop - Your Ultimate Shopping Destination'')
   \<and> read_field app_exports ''SEO_CONFIG'' ''description'' =
         Some (JStr (''MegaShop is a robust ecommerce platform built with next.js and modern technologies.''
                     @ '' It's designed for businesses who want a fast, modern, and scalable foundation for their online store.''))"
  by (simp add: read_field_def read_export_simps SEO_CONFIG_def)

text \<open>
  C5, as amended. The module has exactly four named exports, \<open>SEO_CONFIG\<close>,
  \<open>SYSTEM_CONFIG\<close>, \<open>ADMIN_CONFIG\<close> and \<open>DB_DEV_LOGGER\<close>. The first three are records
  of a fixed shape (four, five and one field, with the keys listed) whose fields are
  all strings or booleans. The fourth is a bare boolean, not a record.
\<close>

theorem C5_four_exports_shapes:
  "length app_exports = 4
   \<and> distinct (export_names app_exports)
   \<and> export_names app_exports = [''SEO_CONFIG'', ''SYSTEM_CONFIG'', ''ADMIN_CONFIG'', ''DB_DEV_LOGGER'']
   \<and> read_export app_exports ''SEO_CONFIG'' = Some SEO_CONFIG
   \<and> is_flat_record SEO_CONFIG
   \<and> field_names SEO_CONFIG = [''description'', ''fullName'', ''name'', ''slogan'']
   \<and> read_export app_exports ''SYSTEM_CONFIG'' = Some SYSTEM_CONFIG
   \<and> is_flat_record SYSTEM_CONFIG
   \<and> field_names SYSTEM_CONFIG =
        [''redirectAfterSignIn'', ''redirectAfterSignUp'', ''repoName'', ''repoOwner'', ''repoStars'']
   \<and> read_export app_exports ''ADMIN_CONFIG'' = Some ADMIN_CONFIG
   \<and> is_flat_record ADMIN_CONFIG
   \<and> field_names ADMIN_CONFIG = [''displayEmails'']
   \<and> read_export app_exports ''DB_DEV_LOGGER'' = Some DB_DEV_LOGGER
   \<and> typeof DB_DEV_LOGGER = ''boolean''
   \<and> is_string_or_boolean DB_DEV_LOGGER
   \<and> field_names DB_DEV_LOGGER = []"
proof -
  have n: "length app_exports = 4"
    by (simp add: app_exports_def)
  have d: "distinct (export_names app_exports)"
    by (simp add: export_names_app)
  have seo: "is_flat_record SEO_CONFIG
      \<and> field_names SEO_CONFIG = [''description'', ''fullName'', ''name'', ''slogan'']"
    by (simp add: SEO_CONFIG_def)
  have sys: "is_flat_record SYSTEM_CONFIG
      \<and> field_names SYSTEM_CONFIG =
          [''redirectAfterSignIn'', ''redirectAfterSignUp'', ''repoName'', ''repoOwner'', ''repoStars'']"
    by (simp add: SYSTEM_CONFIG_def)
  have adm: "is_flat_record ADMIN_CONFIG \<and> field_names ADMIN_CONFIG = [''displayEmails'']"
    by (simp add: ADMIN_CONFIG_def)
  have db: "typeof DB_DEV_LOGGER = ''boolean'' \<and> is_string_or_boolean DB_DEV_LOGGER
      \<and> field_names DB_DEV_LOGGER = []"
    by (simp add: DB_DEV_LOGGER_def)
  from n d seo sys adm db show ?thesis
    by (simp only: export_names_app read_export_simps simp_thms)
qed

text \<open>
  C5, as stated, asks that each of the four exports be a record of scalar fields. The
  export \<open>DB_DEV_LOGGER\<close> is the bare boolean \<open>false\<close>: it is exported, and it is not a
  record.
\<close>

theorem C5_DB_DEV_LOGGER_not_a_record:
  "read_export app_exports ''DB_DEV_LOGGER'' = Some DB_DEV_LOGGER
   \<and> \<not> is_flat_record DB_DEV_LOGGER
   \<and> typeof DB_DEV_LOGGER \<noteq> ''object''"
  by (simp add: read_export_simps DB_DEV_LOGGER_def)

text \<open>
  C6. No operation of the module can fail. Evaluating the module, whatever the
  functions of its environment do, performs no call (hence no parsing, no I/O and no
  validation), raises no error, and yields the table of the four exports. Reading any
  exported constant, or any field of one, whether the export has the field or not, raises
  no error and leaves the module as it is: the read yields the export, respectively the
  field's value or \<open>undefined\<close>. That stays so after any operations of the consumers.
\<close>

theorem C6_module_cannot_fail:
  assumes "n \<in> set (export_names app_exports)"
  shows "eval_module ext app_source [] = ([], Inr app_exports)
     \<and> (\<exists>v. step app_exports (ReadExport n) = (app_exports, Inr v)
            \<and> read_export app_exports n = Some v)
     \<and> step app_exports (ReadField n k) =
         (app_exports, Inr (case read_field app_exports n k of None \<Rightarrow> JUndefined | Some x \<Rightarrow> x))
     \<and> (\<exists>v. step (run app_exports cs) (ReadExport n) = (run app_exports cs, Inr v))
     \<and> (\<exists>v. step (run app_exports cs) (ReadField n k) = (run app_exports cs, Inr v))"
proof -
  have init: "eval_module ext app_source [] = ([], Inr app_exports)"
    by (simp add: app_source_def app_exports_def SEO_CONFIG_def SYSTEM_CONFIG_def
        ADMIN_CONFIG_def DB_DEV_LOGGER_def)
  from assms consider "n = ''SEO_CONFIG''" | "n = ''SYSTEM_CONFIG''"
    | "n = ''ADMIN_CONFIG''" | "n = ''DB_DEV_LOGGER''"
    by (auto simp: export_names_app)
  then have fresh: "(\<exists>v. step app_exports (ReadExport n) = (app_exports, Inr v)
            \<and> read_export app_exports n = Some v)
     \<and> step app_exports (ReadField n k) =
         (app_exports, Inr (case read_field app_exports n k of None \<Rightarrow> JUndefined | Some x \<Rightarrow> x))"
  proof cases
    case 1
    have "map_of app_exports ''SEO_CONFIG'' = Some SEO_CONFIG"
      using read_export_SEO_CONFIG by (simp add: read_export_def)
    with 1 show ?thesis
      by (simp add: read_field_def read_export_def SEO_CONFIG_def)
  next
    case 2
    have "map_of app_exports ''SYSTEM_CONFIG'' = Some SYSTEM_CONFIG"
      using read_export_SYSTEM_CONFIG by (simp add: read_export_def)
    with 2 show ?thesis
      by (simp add: read_field_def read_export_def SYSTEM_CONFIG_def)
  next
    case 3
    have "map_of app_exports ''ADMIN_CONFIG'' = Some ADMIN_CONFIG"
      using read_export_ADMIN_CONFIG by (simp add: read_export_def)
    with 3 show ?thesis
      by (simp add: read_field_def read_export_def ADMIN_CONFIG_def)
  next
    case 4
    have "map_of app_exports ''DB_DEV_LOGGER'' = Some DB_DEV_LOGGER"
      using read_export_DB_DEV_LOGGER by (simp add: read_export_def)
    with 4 show ?thesis
      by (simp add: read_field_def read_export_def DB_DEV_LOGGER_def)
  qed
  from assms have "n \<in> set (map fst (run app_exports cs))"
    by (simp add: run_names export_names_def)
  moreover have "list_all readable (map snd (run app_exports cs))"
    by (rule run_readable) (rule app_exports_readable)
  ultimately have later:
    "(\<exists>v. step (run app_exports cs) (ReadExport n) = (run app_exports cs, Inr v))
     \<and> (\<exists>v. step (run app_exports cs) (ReadField n k) = (run app_exports cs, Inr v))"
    by (rule reads_do_not_raise)
  from init fresh later show ?thesis
    by blast
qed

theorem C6_module_cannot_fail_witness:
  "''ADMIN_CONFIG'' \<in> set (export_names app_exports)
   \<and> eval_module (\<lambda>f vs. Inl (Thrown ''unavailable'')) app_source [] = ([], Inr app_exports)
   \<and> step app_exports (ReadField ''ADMIN_CONFIG'' ''displayNames'') = (app_exports, Inr JUndefined)
   \<and> (\<exists>v. step (run app_exports [WriteField ''ADMIN_CONFIG'' ''displayEmails'' JNull])
              (ReadField ''ADMIN_CONFIG'' ''displayEmails'')
          = (run app_exports [WriteField ''ADMIN_CONFIG'' ''displayEmails'' JNull], Inr v))"
proof -
  have h: "''ADMIN_CONFIG'' \<in> set (export_names app_exports)"
    by (simp add: export_names_app)
  have u: "read_field app_exports ''ADMIN_CONFIG'' ''displayNames'' = None"
    by (simp add: read_field_def read_export_simps ADMIN_CONFIG_def)
  from h u
    C6_module_cannot_fail [OF h, of "\<lambda>f vs. Inl (Thrown ''unavailable'')" "''displayNames''" "[]"]
    C6_module_cannot_fail [OF h, of "\<lambda>f vs. Inl (Thrown ''unavailable'')" "''displayEmails''"
      "[WriteField ''ADMIN_CONFIG'' ''displayEmails'' JNull]"]
  show ?thesis
    by simp
qed




text \<open>
  C8. The two redirect paths coincide: \<open>redirectAfterSignIn\<close> and
  \<open>redirectAfterSignUp\<close> of \<open>SYSTEM_CONFIG\<close> are the same string, \<open>/dashboard/uploads\<close>.
\<close>

theorem C8_redirects_coincide:
  "read_field app_exports ''SYSTEM_CONFIG'' ''redirectAfterSignIn''
     = read_field app_exports ''SYSTEM_CONFIG'' ''redirectAfterSignUp''
   \<and> read_field app_exports ''SYSTEM_CONFIG'' ''redirectAfterSignUp''
     = Some (JStr ''/dashboard/uploads'')"
  by (simp add: read_field_def read_export_simps SYSTEM_CONFIG_def)

text \<open>
  C9. \<open>SYSTEM_CONFIG.repoStars\<close> is the boolean \<open>true\<close>: its type is boolean, and it is
  not a number.
\<close>

theorem C9_repoStars_is_flag:
  "\<exists>v. read_field app_exports ''SYSTEM_CONFIG'' ''repoStars'' = Some v
      \<and> v = JBool True
      \<and> typeof v = ''boolean''
      \<and> typeof v \<noteq> ''number''
      \<and> (\<forall>c. v \<noteq> JNum c)"
  by (simp add: read_field_def read_export_simps SYSTEM_CONFIG_def)

text \<open>
  C10. \<open>SEO_CONFIG.fullName\<close> is \<open>SEO_CONFIG.name\<close> followed by the suffix
  \<open> - Your Ultimate Shopping Destination\<close>; in particular \<open>name\<close> is a prefix of
  \<open>fullName\<close>.
\<close>

theorem C10_fullName_extends_name:
  "\<exists>n f. read_string app_exports ''SEO_CONFIG'' ''name'' = Some n
        \<and> read_string app_exports ''SEO_CONFIG'' ''fullName'' = Some f
        \<and> f = n @ '' - Your Ultimate Shopping Destination''
        \<and> prefix n f"
  by (simp add: read_string_def read_field_def read_export_simps SEO_CONFIG_def)

end
